theory Spec2Isabelle
  imports Main
begin

section \<open>The public upload page (ui/src/pages/PublicUpload.tsx)\<close>

text \<open>
  The page has two submission handlers, \<open>handleFileUpload\<close> and \<open>handleUrlUpload\<close>, and a
  render function. The handlers are asynchronous functions that read the page's React state,
  call collaborators (the file reader, four API entry points, the reCAPTCHA widget, the
  router, the status-polling hook) and write the state back. They are embedded as functions
  from the configuration, the collaborators, the state and the input to the state after the
  handler has settled and the list of collaborator calls it made, in order.
\<close>

subsection \<open>Data\<close>

text \<open>
  A user-facing text. \<open>T key dflt\<close> is the call \<open>t(key, dflt)\<close> of the translation
  function (the localisation subsystem is a collaborator; the call is kept as it is written).
  \<open>Literal m\<close> is a string used as it came, here the server's \<open>response.message\<close>.
\<close>

datatype msg = T string string | Literal string

text \<open>The state \<open>uploadResult\<close>: \<open>{ success: boolean; message: string }\<close>.\<close>

record upload_result =
  success :: bool
  message :: msg

text \<open>
  The value of \<open>file.size\<close> as line 45 inspects it: \<open>Number n\<close> when
  \<open>typeof file.size === 'number'\<close> (a byte count \<open>n\<close>), \<open>NonNumber\<close> for a value of any
  other type.
\<close>

datatype js_size = Number int | NonNumber

record js_file =
  file_name :: string
  file_size :: js_size
  file_type :: string

text \<open>
  What a collaborator's promise rejects with, as the \<open>catch\<close> blocks read it:
  \<open>error.status\<close> (a number or nothing) and \<open>error.message\<close> (a string or nothing).
\<close>

record js_error =
  status :: "int option"
  err_message :: "string option"

text \<open>
  The response object of the four API entry points: \<open>success\<close>, and the optional
  \<open>documentId\<close>, \<open>uploadId\<close> and \<open>message\<close>.
\<close>

record response =
  resp_success :: bool
  documentId :: "string option"
  uploadId :: "string option"
  resp_message :: "string option"

datatype api_outcome = Resolves response | Rejects js_error

text \<open>
  The collaborators a handler calls. \<open>readAsDataURL\<close> is the \<open>FileReader\<close>: \<open>Some\<close> of the
  data URL handed to \<open>onload\<close>, or \<open>None\<close> when \<open>onerror\<close> fires. \<open>recaptchaRef\<close> is
  \<open>recaptchaRef.current\<close>: \<open>None\<close> when no widget is mounted, otherwise \<open>Some\<close> of what
  its \<open>getValue()\<close> returns (a token or \<open>null\<close>).
\<close>

record collaborators =
  readAsDataURL :: "js_file \<Rightarrow> string option"
  api_uploadMenu :: "js_file \<Rightarrow> string option \<Rightarrow> api_outcome"
  api_uploadMenuUrl :: "string \<Rightarrow> string \<Rightarrow> api_outcome"
  uploadPublicMenu :: "js_file \<Rightarrow> string \<Rightarrow> api_outcome"
  parsePublicUrl :: "string \<Rightarrow> string \<Rightarrow> api_outcome"
  recaptchaRef :: "string option option"

text \<open>
  The calls a handler makes on its collaborators, as they appear in the source:
  \<open>api.uploadMenu({ file: { name, size, type, content } })\<close>,
  \<open>api.uploadMenuUrl({ url, restaurant: { name } })\<close>, \<open>uploadPublicMenu(file, token)\<close>,
  \<open>parsePublicUrl(url, token)\<close>, \<open>startPolling()\<close>, \<open>navigate(path)\<close> and
  \<open>recaptchaRef.current.reset()\<close>.
\<close>

datatype effect =
    UploadMenu js_file "string option"
  | UploadMenuUrl string string
  | UploadPublicMenu js_file string
  | ParsePublicUrl string string
  | StartPolling
  | Navigate string
  | RecaptchaReset

datatype session = Session string

text \<open>
  What the page reads from outside: \<open>user\<close> of \<open>useAuth()\<close>, and \<open>import.meta.env.DEV\<close> and
  \<open>import.meta.env.VITE_RECAPTCHA_SITE_KEY\<close>.
\<close>

record env =
  user :: "session option"
  DEV :: bool
  VITE_RECAPTCHA_SITE_KEY :: "string option"

text \<open>The \<open>useState\<close> cells the handlers read and write (lines 24 to 30).\<close>

record page_state =
  recaptchaVerified :: bool
  uploadInProgress :: bool
  uploadResult :: "upload_result option"
  lastDocumentId :: "string option"

text \<open>How a \<open>try\<close> block ends: it runs to its end, or a promise it awaits rejects.\<close>

datatype completion = Normal | Throw js_error

subsection \<open>JavaScript operators the page uses\<close>

text \<open>Truthiness of a value that is a string, \<open>null\<close> or \<open>undefined\<close>.\<close>

definition truthy :: "string option \<Rightarrow> bool" where
  "truthy v = (case v of None \<Rightarrow> False | Some s \<Rightarrow> s \<noteq> [])"

text \<open>\<open>s.includes(pat)\<close>.\<close>

fun js_includes :: "string \<Rightarrow> string \<Rightarrow> bool" where
  "js_includes [] pat = (pat = [])"
| "js_includes (c # cs) pat = (take (length pat) (c # cs) = pat \<or> js_includes cs pat)"

text \<open>\<open>result.split(',')[1]\<close>: the text between the first and the second comma.\<close>

definition base64Content :: "string \<Rightarrow> string option" where
  "base64Content result =
     (case dropWhile (\<lambda>c. c \<noteq> CHR '','') result of
        [] \<Rightarrow> None
      | _ # rest \<Rightarrow> Some (takeWhile (\<lambda>c. c \<noteq> CHR '','') rest))"

text \<open>
  A field that is a string or is missing (\<open>undefined\<close>), inside a template literal.
\<close>

definition template_str :: "string option \<Rightarrow> string" where
  "template_str v = (case v of None \<Rightarrow> ''undefined'' | Some s \<Rightarrow> s)"

subsection \<open>The handlers\<close>

definition maxSizeBytes :: int where
  "maxSizeBytes = 10 * 1024 * 1024"

text \<open>Line 45: \<open>typeof file.size === 'number' && file.size > maxSizeBytes\<close>.\<close>

definition too_large :: "js_file \<Rightarrow> bool" where
  "too_large f = (case file_size f of Number n \<Rightarrow> n > maxSizeBytes | NonNumber \<Rightarrow> False)"

text \<open>Lines 54 and 139.\<close>

definition isDev :: "env \<Rightarrow> bool" where
  "isDev e = (DEV e \<or> \<not> truthy (VITE_RECAPTCHA_SITE_KEY e))"

text \<open>Lines 89 and 164: \<open>recaptchaRef.current?.getValue() || 'dev-token'\<close>.\<close>

definition recaptchaToken :: "collaborators \<Rightarrow> string" where
  "recaptchaToken w =
     (case recaptchaRef w of
        None \<Rightarrow> ''dev-token''
      | Some v \<Rightarrow> (case v of None \<Rightarrow> ''dev-token''
                  | Some tok \<Rightarrow> if tok \<noteq> [] then tok else ''dev-token''))"

text \<open>Lines 33 to 35.\<close>

definition handleRecaptchaChange :: "page_state \<Rightarrow> string option \<Rightarrow> page_state" where
  "handleRecaptchaChange s token = s\<lparr>recaptchaVerified := truthy token\<rparr>"

text \<open>The two rejections made before anything is sent (lines 46 to 49, 57 to 60, 142 to 145).\<close>

definition fileTooLarge :: upload_result where
  "fileTooLarge =
     \<lparr>success = False, message = T ''publicUpload.fileTooLarge'' ''Maximum upload size is 10 MB''\<rparr>"

definition recaptchaRequired :: upload_result where
  "recaptchaRequired =
     \<lparr>success = False,
      message = T ''publicUpload.recaptchaRequired''
                  ''Please complete the reCAPTCHA verification to proceed.''\<rparr>"

text \<open>
  Lines 108 and 181: \<open>response.message || t('publicUpload.uploadError', dflt)\<close>, where
  \<open>dflt\<close> is the handler's own default text.
\<close>

definition failureMessage :: "string \<Rightarrow> response \<Rightarrow> msg" where
  "failureMessage dflt r =
     (case resp_message r of
        None \<Rightarrow> T ''publicUpload.uploadError'' dflt
      | Some m \<Rightarrow> if m \<noteq> [] then Literal m else T ''publicUpload.uploadError'' dflt)"

text \<open>
  Lines 93 to 116 and 168 to 189, the same code in both handlers up to the default text of
  the failure message: what is done with a response, then the reset for the next upload.
\<close>

definition on_response ::
  "string \<Rightarrow> env \<Rightarrow> collaborators \<Rightarrow> page_state \<Rightarrow> response \<Rightarrow> page_state \<times> effect list" where
  "on_response dflt e w s r =
     (let shown =
            (if resp_success r then
               (case user e of
                  Some _ \<Rightarrow>
                    (s\<lparr>uploadResult := Some \<lparr>success = True,
                         message = T ''publicUpload.uploadSuccess''
                           ''Upload successful! Check your dashboard for analysis results.''\<rparr>\<rparr>,
                     [])
                | None \<Rightarrow> (s, [Navigate (''/restaurant-details/'' @ template_str (uploadId r))]))
             else
               (s\<lparr>uploadResult := Some \<lparr>success = False, message = failureMessage dflt r\<rparr>\<rparr>,
                []))
      in (case user e of
            Some _ \<Rightarrow> shown
          | None \<Rightarrow>
              ((fst shown)\<lparr>recaptchaVerified := False\<rparr>,
               snd shown @ (case recaptchaRef w of None \<Rightarrow> [] | Some _ \<Rightarrow> [RecaptchaReset]))))"

text \<open>Lines 83 to 86 and 158 to 161: the document identifier of an authenticated response.\<close>

definition on_document ::
  "page_state \<Rightarrow> response \<Rightarrow> page_state \<times> effect list" where
  "on_document s r =
     (if truthy (documentId r) then (s\<lparr>lastDocumentId := documentId r\<rparr>, [StartPolling])
      else (s, []))"

text \<open>
  The \<open>try\<close> block of \<open>handleFileUpload\<close> (lines 68 to 116): the state and the calls made
  when it ends, and how it ends. The rejection of the file reader is the reader's
  \<open>ProgressEvent\<close>, which has neither a \<open>status\<close> nor a \<open>message\<close>.
\<close>

definition file_try ::
  "env \<Rightarrow> collaborators \<Rightarrow> page_state \<Rightarrow> js_file \<Rightarrow> page_state \<times> effect list \<times> completion" where
  "file_try e w s f =
     (case user e of
        Some _ \<Rightarrow>
          (case readAsDataURL w f of
             None \<Rightarrow> (s, [], Throw \<lparr>status = None, err_message = None\<rparr>)
           | Some result \<Rightarrow>
               (let fileContent = base64Content result in
                case api_uploadMenu w f fileContent of
                  Rejects err \<Rightarrow> (s, [UploadMenu f fileContent], Throw err)
                | Resolves r \<Rightarrow>
                    (let d = on_document s r;
                         k = on_response ''Upload failed. Please try again.'' e w (fst d) r
                     in (fst k, UploadMenu f fileContent # snd d @ snd k, Normal))))
      | None \<Rightarrow>
          (let token = recaptchaToken w in
           case uploadPublicMenu w f token of
             Rejects err \<Rightarrow> (s, [UploadPublicMenu f token], Throw err)
           | Resolves r \<Rightarrow>
               (let k = on_response ''Upload failed. Please try again.'' e w s r
                in (fst k, UploadPublicMenu f token # snd k, Normal))))"

text \<open>The \<open>catch\<close> block of \<open>handleFileUpload\<close> (lines 118 to 126).\<close>

definition file_errorMessage :: "js_error \<Rightarrow> msg" where
  "file_errorMessage error =
     (if status error = Some 429 then
        T ''publicUpload.rateLimitError'' ''Too many uploads. Please wait before trying again.''
      else if status error = Some 413 then
        T ''publicUpload.fileTooLarge'' ''Maximum upload size is 10 MB''
      else if (case err_message error of None \<Rightarrow> False | Some m \<Rightarrow> js_includes m ''reCAPTCHA'') then
        T ''publicUpload.recaptchaError'' ''reCAPTCHA verification failed. Please try again.''
      else T ''publicUpload.uploadError'' ''Upload failed. Please try again.'')"

text \<open>\<open>handleFileUpload\<close> (lines 37 to 135).\<close>

definition handleFileUpload ::
  "env \<Rightarrow> collaborators \<Rightarrow> page_state \<Rightarrow> js_file list \<Rightarrow> page_state \<times> effect list" where
  "handleFileUpload e w s files =
     (case files of
        [] \<Rightarrow> (s, [])
      | f # _ \<Rightarrow>
          if too_large f then (s\<lparr>uploadResult := Some fileTooLarge\<rparr>, [])
          else if user e = None \<and> \<not> recaptchaVerified s \<and> \<not> isDev e then
            (s\<lparr>uploadResult := Some recaptchaRequired\<rparr>, [])
          else
            (case file_try e w (s\<lparr>uploadInProgress := True, uploadResult := None\<rparr>) f of
               (s', calls, Normal) \<Rightarrow> (s'\<lparr>uploadInProgress := False\<rparr>, calls)
             | (s', calls, Throw error) \<Rightarrow>
                 (s'\<lparr>uploadResult := Some \<lparr>success = False, message = file_errorMessage error\<rparr>,
                     uploadInProgress := False\<rparr>,
                  calls)))"

text \<open>The \<open>try\<close> block of \<open>handleUrlUpload\<close> (lines 153 to 189).\<close>

definition url_try ::
  "env \<Rightarrow> collaborators \<Rightarrow> page_state \<Rightarrow> string \<Rightarrow> page_state \<times> effect list \<times> completion" where
  "url_try e w s url =
     (case user e of
        Some _ \<Rightarrow>
          (case api_uploadMenuUrl w url [] of
             Rejects err \<Rightarrow> (s, [UploadMenuUrl url []], Throw err)
           | Resolves r \<Rightarrow>
               (let d = on_document s r;
                    k = on_response ''URL parsing failed. Please try again.'' e w (fst d) r
                in (fst k, UploadMenuUrl url [] # snd d @ snd k, Normal)))
      | None \<Rightarrow>
          (let token = recaptchaToken w in
           case parsePublicUrl w url token of
             Rejects err \<Rightarrow> (s, [ParsePublicUrl url token], Throw err)
           | Resolves r \<Rightarrow>
               (let k = on_response ''URL parsing failed. Please try again.'' e w s r
                in (fst k, ParsePublicUrl url token # snd k, Normal))))"

text \<open>The \<open>catch\<close> block of \<open>handleUrlUpload\<close> (lines 191 to 197).\<close>

definition url_errorMessage :: "js_error \<Rightarrow> msg" where
  "url_errorMessage error =
     (if status error = Some 429 then
        T ''publicUpload.rateLimitError'' ''Too many uploads. Please wait before trying again.''
      else if (case err_message error of None \<Rightarrow> False | Some m \<Rightarrow> js_includes m ''reCAPTCHA'') then
        T ''publicUpload.recaptchaError'' ''reCAPTCHA verification failed. Please try again.''
      else T ''publicUpload.uploadError'' ''URL parsing failed. Please try again.'')"

text \<open>\<open>handleUrlUpload\<close> (lines 137 to 206).\<close>

definition handleUrlUpload ::
  "env \<Rightarrow> collaborators \<Rightarrow> page_state \<Rightarrow> string \<Rightarrow> page_state \<times> effect list" where
  "handleUrlUpload e w s url =
     (if user e = None \<and> \<not> recaptchaVerified s \<and> \<not> isDev e then
        (s\<lparr>uploadResult := Some recaptchaRequired\<rparr>, [])
      else
        (case url_try e w (s\<lparr>uploadInProgress := True, uploadResult := None\<rparr>) url of
           (s', calls, Normal) \<Rightarrow> (s'\<lparr>uploadInProgress := False\<rparr>, calls)
         | (s', calls, Throw error) \<Rightarrow>
             (s'\<lparr>uploadResult := Some \<lparr>success = False, message = url_errorMessage error\<rparr>,
                 uploadInProgress := False\<rparr>,
              calls)))"

subsection \<open>What the page renders\<close>

text \<open>Line 313: \<open>!user && import.meta.env.VITE_RECAPTCHA_SITE_KEY && !import.meta.env.DEV\<close>.\<close>

definition renders_recaptcha :: "env \<Rightarrow> bool" where
  "renders_recaptcha e = (user e = None \<and> truthy (VITE_RECAPTCHA_SITE_KEY e) \<and> \<not> DEV e)"

text \<open>Line 325: \<open>!user && (import.meta.env.DEV || !import.meta.env.VITE_RECAPTCHA_SITE_KEY)\<close>.\<close>

definition renders_dev_notice :: "env \<Rightarrow> bool" where
  "renders_dev_notice e = (user e = None \<and> (DEV e \<or> \<not> truthy (VITE_RECAPTCHA_SITE_KEY e)))"

subsection \<open>Reading the list of calls\<close>

fun is_network_call :: "effect \<Rightarrow> bool" where
  "is_network_call (UploadMenu _ _) = True"
| "is_network_call (UploadMenuUrl _ _) = True"
| "is_network_call (UploadPublicMenu _ _) = True"
| "is_network_call (ParsePublicUrl _ _) = True"
| "is_network_call _ = False"

definition network_calls :: "effect list \<Rightarrow> effect list" where
  "network_calls calls = filter is_network_call calls"

fun navigations :: "effect list \<Rightarrow> string list" where
  "navigations [] = []"
| "navigations (Navigate path # calls) = path # navigations calls"
| "navigations (_ # calls) = navigations calls"

subsection \<open>The status-polling hook\<close>

text \<open>
  Modelled from the spec: the hook \<open>useDocumentStatusPoll\<close> (line 31) is not in this file.
  The spec gives its contract: the status polling collaborator is given a document
  identifier and exposes a \<open>start()\<close> trigger. The page gives it \<open>lastDocumentId\<close>, so the
  document polled after a handler has settled is the last document identifier, provided the
  handler called \<open>startPolling()\<close>.
\<close>

definition polled_document :: "page_state \<times> effect list \<Rightarrow> string option" where
  "polled_document out =
     (if StartPolling \<in> set (snd out) then lastDocumentId (fst out) else None)"

subsection \<open>Concrete pages, files and servers\<close>

text \<open>The state of a page that has just been mounted (the \<open>useState\<close> initial values).\<close>

definition page0 :: page_state where
  "page0 = \<lparr>recaptchaVerified = False, uploadInProgress = False, uploadResult = None,
            lastDocumentId = None\<rparr>"

text \<open>The same page after the widget has reported the token \<open>tok-1\<close>.\<close>

definition verified_page :: page_state where
  "verified_page = handleRecaptchaChange page0 (Some ''tok-1'')"

text \<open>
  Three configurations: a visitor on the production site, a visitor on a development build
  with no site key, and a signed-in user on the production site.
\<close>

definition guest_env :: env where
  "guest_env = \<lparr>user = None, DEV = False, VITE_RECAPTCHA_SITE_KEY = Some ''site-key''\<rparr>"

definition dev_env :: env where
  "dev_env = \<lparr>user = None, DEV = True, VITE_RECAPTCHA_SITE_KEY = None\<rparr>"

definition member_env :: env where
  "member_env =
     \<lparr>user = Some (Session ''u42''), DEV = False, VITE_RECAPTCHA_SITE_KEY = Some ''site-key''\<rparr>"

text \<open>A file of 50 KB, a file of 11 MiB, and an object whose \<open>size\<close> is not a number.\<close>

definition small_pdf :: js_file where
  "small_pdf =
     \<lparr>file_name = ''menu.pdf'', file_size = Number 51200, file_type = ''application/pdf''\<rparr>"

definition big_pdf :: js_file where
  "big_pdf =
     \<lparr>file_name = ''big.pdf'', file_size = Number 11534336, file_type = ''application/pdf''\<rparr>"

definition odd_file :: js_file where
  "odd_file = \<lparr>file_name = ''odd.pdf'', file_size = NonNumber, file_type = ''application/pdf''\<rparr>"

text \<open>
  Collaborators whose four entry points all resolve with the response \<open>r\<close>, or all reject
  with \<open>err\<close>; the file reader yields a data URL, and \<open>ref\<close> is the widget. \<open>unreadable\<close>
  is a browser whose file reader fails.
\<close>

definition answering :: "response \<Rightarrow> string option option \<Rightarrow> collaborators" where
  "answering r ref =
     \<lparr>readAsDataURL = (\<lambda>_. Some ''data:application/pdf;base64,JVBERi0x''),
      api_uploadMenu = (\<lambda>_ _. Resolves r),
      api_uploadMenuUrl = (\<lambda>_ _. Resolves r),
      uploadPublicMenu = (\<lambda>_ _. Resolves r),
      parsePublicUrl = (\<lambda>_ _. Resolves r),
      recaptchaRef = ref\<rparr>"

definition rejecting :: "js_error \<Rightarrow> string option option \<Rightarrow> collaborators" where
  "rejecting err ref =
     \<lparr>readAsDataURL = (\<lambda>_. Some ''data:application/pdf;base64,JVBERi0x''),
      api_uploadMenu = (\<lambda>_ _. Rejects err),
      api_uploadMenuUrl = (\<lambda>_ _. Rejects err),
      uploadPublicMenu = (\<lambda>_ _. Rejects err),
      parsePublicUrl = (\<lambda>_ _. Rejects err),
      recaptchaRef = ref\<rparr>"

definition unreadable :: "response \<Rightarrow> collaborators" where
  "unreadable r = (answering r None)\<lparr>readAsDataURL := (\<lambda>_. None)\<rparr>"

text \<open>The responses and the error of the examples.\<close>

definition doc1_response :: response where
  "doc1_response =
     \<lparr>resp_success = True, documentId = Some ''doc1'', uploadId = None, resp_message = None\<rparr>"

definition u1_response :: response where
  "u1_response =
     \<lparr>resp_success = True, documentId = None, uploadId = Some ''u1'', resp_message = None\<rparr>"

definition refusal :: response where
  "refusal =
     \<lparr>resp_success = False, documentId = None, uploadId = None,
      resp_message = Some ''Only PDF menus are accepted''\<rparr>"

definition bare_refusal :: response where
  "bare_refusal =
     \<lparr>resp_success = False, documentId = None, uploadId = None, resp_message = None\<rparr>"

definition too_many_requests :: js_error where
  "too_many_requests = \<lparr>status = Some 429, err_message = Some ''Too Many Requests''\<rparr>"

section \<open>Properties\<close>

subsection \<open>What each path of the handlers returns\<close>

lemma too_large_iff:
  "too_large f \<longleftrightarrow> (\<exists>n. file_size f = Number n \<and> n > 10 * 1024 * 1024)"
  by (cases "file_size f") (simp_all add: too_large_def maxSizeBytes_def)

lemma file_too_large:
  "too_large f \<Longrightarrow> handleFileUpload e w s (f # fs) = (s\<lparr>uploadResult := Some fileTooLarge\<rparr>, [])"
  by (simp add: handleFileUpload_def)

lemma file_unverified:
  "\<not> too_large f \<Longrightarrow> user e = None \<Longrightarrow> \<not> recaptchaVerified s \<Longrightarrow> \<not> isDev e \<Longrightarrow>
   handleFileUpload e w s (f # fs) = (s\<lparr>uploadResult := Some recaptchaRequired\<rparr>, [])"
  by (simp add: handleFileUpload_def)

lemma file_unreadable:
  "\<not> too_large f \<Longrightarrow> user e = Some u \<Longrightarrow> readAsDataURL w f = None \<Longrightarrow>
   handleFileUpload e w s (f # fs) =
     (s\<lparr>uploadInProgress := False,
        uploadResult := Some \<lparr>success = False,
          message = T ''publicUpload.uploadError'' ''Upload failed. Please try again.''\<rparr>\<rparr>, [])"
  by (simp add: handleFileUpload_def file_try_def file_errorMessage_def)

lemma file_member_rejects:
  "\<not> too_large f \<Longrightarrow> user e = Some u \<Longrightarrow> readAsDataURL w f = Some d \<Longrightarrow>
   api_uploadMenu w f (base64Content d) = Rejects err \<Longrightarrow>
   handleFileUpload e w s (f # fs) =
     (s\<lparr>uploadInProgress := False,
        uploadResult := Some \<lparr>success = False, message = file_errorMessage err\<rparr>\<rparr>,
      [UploadMenu f (base64Content d)])"
  by (simp add: handleFileUpload_def file_try_def)

lemma file_member_resolves:
  "\<not> too_large f \<Longrightarrow> user e = Some u \<Longrightarrow> readAsDataURL w f = Some d \<Longrightarrow>
   api_uploadMenu w f (base64Content d) = Resolves r \<Longrightarrow>
   handleFileUpload e w s (f # fs) =
     (s\<lparr>uploadInProgress := False,
        uploadResult :=
          Some (if resp_success r
                then \<lparr>success = True, message = T ''publicUpload.uploadSuccess''
                       ''Upload successful! Check your dashboard for analysis results.''\<rparr>
                else \<lparr>success = False,
                      message = failureMessage ''Upload failed. Please try again.'' r\<rparr>),
        lastDocumentId := (if truthy (documentId r) then documentId r else lastDocumentId s)\<rparr>,
      UploadMenu f (base64Content d) # (if truthy (documentId r) then [StartPolling] else []))"
  by (simp add: handleFileUpload_def file_try_def on_document_def on_response_def)

lemma file_guest_rejects:
  "\<not> too_large f \<Longrightarrow> user e = None \<Longrightarrow> recaptchaVerified s \<or> isDev e \<Longrightarrow>
   uploadPublicMenu w f (recaptchaToken w) = Rejects err \<Longrightarrow>
   handleFileUpload e w s (f # fs) =
     (s\<lparr>uploadInProgress := False,
        uploadResult := Some \<lparr>success = False, message = file_errorMessage err\<rparr>\<rparr>,
      [UploadPublicMenu f (recaptchaToken w)])"
  by (auto simp add: handleFileUpload_def file_try_def)

lemma file_guest_resolves:
  "\<not> too_large f \<Longrightarrow> user e = None \<Longrightarrow> recaptchaVerified s \<or> isDev e \<Longrightarrow>
   uploadPublicMenu w f (recaptchaToken w) = Resolves r \<Longrightarrow>
   handleFileUpload e w s (f # fs) =
     (s\<lparr>uploadInProgress := False,
        uploadResult :=
          (if resp_success r then None
           else Some \<lparr>success = False,
                  message = failureMessage ''Upload failed. Please try again.'' r\<rparr>),
        recaptchaVerified := False\<rparr>,
      UploadPublicMenu f (recaptchaToken w)
        # (if resp_success r
           then [Navigate (''/restaurant-details/'' @ template_str (uploadId r))] else [])
        @ (case recaptchaRef w of None \<Rightarrow> [] | Some _ \<Rightarrow> [RecaptchaReset]))"
  by (auto simp add: handleFileUpload_def file_try_def on_response_def)

lemma url_unverified:
  "user e = None \<Longrightarrow> \<not> recaptchaVerified s \<Longrightarrow> \<not> isDev e \<Longrightarrow>
   handleUrlUpload e w s url = (s\<lparr>uploadResult := Some recaptchaRequired\<rparr>, [])"
  by (simp add: handleUrlUpload_def)

lemma url_member_rejects:
  "user e = Some u \<Longrightarrow> api_uploadMenuUrl w url [] = Rejects err \<Longrightarrow>
   handleUrlUpload e w s url =
     (s\<lparr>uploadInProgress := False,
        uploadResult := Some \<lparr>success = False, message = url_errorMessage err\<rparr>\<rparr>,
      [UploadMenuUrl url []])"
  by (simp add: handleUrlUpload_def url_try_def)

lemma url_member_resolves:
  "user e = Some u \<Longrightarrow> api_uploadMenuUrl w url [] = Resolves r \<Longrightarrow>
   handleUrlUpload e w s url =
     (s\<lparr>uploadInProgress := False,
        uploadResult :=
          Some (if resp_success r
                then \<lparr>success = True, message = T ''publicUpload.uploadSuccess''
                       ''Upload successful! Check your dashboard for analysis results.''\<rparr>
                else \<lparr>success = False,
                      message = failureMessage ''URL parsing failed. Please try again.'' r\<rparr>),
        lastDocumentId := (if truthy (documentId r) then documentId r else lastDocumentId s)\<rparr>,
      UploadMenuUrl url [] # (if truthy (documentId r) then [StartPolling] else []))"
  by (simp add: handleUrlUpload_def url_try_def on_document_def on_response_def)

lemma url_guest_rejects:
  "user e = None \<Longrightarrow> recaptchaVerified s \<or> isDev e \<Longrightarrow>
   parsePublicUrl w url (recaptchaToken w) = Rejects err \<Longrightarrow>
   handleUrlUpload e w s url =
     (s\<lparr>uploadInProgress := False,
        uploadResult := Some \<lparr>success = False, message = url_errorMessage err\<rparr>\<rparr>,
      [ParsePublicUrl url (recaptchaToken w)])"
  by (auto simp add: handleUrlUpload_def url_try_def)

lemma url_guest_resolves:
  "user e = None \<Longrightarrow> recaptchaVerified s \<or> isDev e \<Longrightarrow>
   parsePublicUrl w url (recaptchaToken w) = Resolves r \<Longrightarrow>
   handleUrlUpload e w s url =
     (s\<lparr>uploadInProgress := False,
        uploadResult :=
          (if resp_success r then None
           else Some \<lparr>success = False,
                  message = failureMessage ''URL parsing failed. Please try again.'' r\<rparr>),
        recaptchaVerified := False\<rparr>,
      ParsePublicUrl url (recaptchaToken w)
        # (if resp_success r
           then [Navigate (''/restaurant-details/'' @ template_str (uploadId r))] else [])
        @ (case recaptchaRef w of None \<Rightarrow> [] | Some _ \<Rightarrow> [RecaptchaReset]))"
  by (auto simp add: handleUrlUpload_def url_try_def on_response_def)

subsection \<open>Local rejections\<close>

text \<open>
  C3. For every file submission whose file has a size above 10 MiB (10 * 1024 * 1024
  bytes), the attempt fails locally: the result is the failure with the file-too-large
  message, nothing else of the state changes, no collaborator is called, and so no network
  call is made.
\<close>

theorem oversized_file_rejected_locally:
  assumes "file_size f = Number n" and "n > 10 * 1024 * 1024"
  shows "handleFileUpload e w s (f # fs) =
           (s\<lparr>uploadResult := Some \<lparr>success = False,
                 message = T ''publicUpload.fileTooLarge'' ''Maximum upload size is 10 MB''\<rparr>\<rparr>,
            [])
         \<and> network_calls (snd (handleFileUpload e w s (f # fs))) = []"
proof -
  from assms have "too_large f"
    by (simp add: too_large_def maxSizeBytes_def)
  then show ?thesis
    by (simp add: file_too_large fileTooLarge_def network_calls_def)
qed

theorem oversized_file_rejected_locally_witness:
  "file_size big_pdf = Number 11534336 \<and> (11534336 :: int) > 10 * 1024 * 1024
   \<and> handleFileUpload member_env (answering doc1_response None) page0 [big_pdf] =
       (\<lparr>recaptchaVerified = False, uploadInProgress = False,
         uploadResult = Some \<lparr>success = False,
           message = T ''publicUpload.fileTooLarge'' ''Maximum upload size is 10 MB''\<rparr>,
         lastDocumentId = None\<rparr>, [])
   \<and> network_calls
        (snd (handleFileUpload member_env (answering doc1_response None) page0 [big_pdf])) = []"
proof -
  have size: "file_size big_pdf = Number 11534336"
    by (simp add: big_pdf_def)
  have above: "(11534336 :: int) > 10 * 1024 * 1024"
    by simp
  from oversized_file_rejected_locally [OF size above,
      of member_env "answering doc1_response None" page0 "[]"]
  show ?thesis
    using size by (simp add: page0_def network_calls_def)
qed

text \<open>
  C4 as the spec states it does not hold for a file above 10 MiB: the size check comes
  first (line 45 before line 56), so a visitor with no verified token who submits such a
  file gets the file-too-large message, not the verification-required one.
\<close>

theorem unverified_guest_big_file_message:
  "user guest_env = None \<and> \<not> recaptchaVerified page0 \<and> \<not> DEV guest_env
   \<and> VITE_RECAPTCHA_SITE_KEY guest_env = Some ''site-key''
   \<and> uploadResult
        (fst (handleFileUpload guest_env (answering u1_response (Some None)) page0 [big_pdf]))
       = Some \<lparr>success = False,
                message = T ''publicUpload.fileTooLarge'' ''Maximum upload size is 10 MB''\<rparr>
   \<and> uploadResult
        (fst (handleFileUpload guest_env (answering u1_response (Some None)) page0 [big_pdf]))
       \<noteq> Some \<lparr>success = False,
                message = T ''publicUpload.recaptchaRequired''
                            ''Please complete the reCAPTCHA verification to proceed.''\<rparr>"
  by (simp add: handleFileUpload_def too_large_def maxSizeBytes_def big_pdf_def fileTooLarge_def
      guest_env_def page0_def)

text \<open>
  C4, amended. A visitor (no session) with no verified token, on a site where the
  development flag is off and a site key is configured: every URL submission, and every
  file submission whose file passes the size check, fails locally with the
  verification-required message and changes nothing else; a file that fails the size check
  is rejected with the file-too-large message instead; and no submission of such a visitor,
  whatever the files, makes a network call.
\<close>

theorem unverified_guest_rejected_locally:
  assumes "user e = None" and "\<not> recaptchaVerified s"
    and "\<not> DEV e" and "VITE_RECAPTCHA_SITE_KEY e = Some k" and "k \<noteq> []"
  shows "handleUrlUpload e w s url =
           (s\<lparr>uploadResult := Some \<lparr>success = False,
                 message = T ''publicUpload.recaptchaRequired''
                             ''Please complete the reCAPTCHA verification to proceed.''\<rparr>\<rparr>,
            [])
         \<and> (\<not> too_large f \<longrightarrow>
              handleFileUpload e w s (f # fs) =
                (s\<lparr>uploadResult := Some \<lparr>success = False,
                      message = T ''publicUpload.recaptchaRequired''
                                  ''Please complete the reCAPTCHA verification to proceed.''\<rparr>\<rparr>,
                 []))
         \<and> (too_large f \<longrightarrow>
              handleFileUpload e w s (f # fs) =
                (s\<lparr>uploadResult := Some \<lparr>success = False,
                      message = T ''publicUpload.fileTooLarge'' ''Maximum upload size is 10 MB''\<rparr>\<rparr>,
                 []))
         \<and> network_calls (snd (handleUrlUpload e w s url)) = []
         \<and> network_calls (snd (handleFileUpload e w s files)) = []"
proof -
  from assms have gate: "\<not> isDev e"
    by (simp add: isDev_def truthy_def)
  have url: "handleUrlUpload e w s url = (s\<lparr>uploadResult := Some recaptchaRequired\<rparr>, [])"
    using assms(1,2) gate by (rule url_unverified)
  have upload: "handleFileUpload e w s (f # fs) = (s\<lparr>uploadResult := Some recaptchaRequired\<rparr>, [])"
    if "\<not> too_large f"
    using that assms(1,2) gate by (rule file_unverified)
  have quiet: "snd (handleFileUpload e w s files) = []"
  proof (cases files)
    case Nil
    then show ?thesis by (simp add: handleFileUpload_def)
  next
    case (Cons g gs)
    show ?thesis
    proof (cases "too_large g")
      case True
      then show ?thesis using Cons by (simp add: file_too_large)
    next
      case False
      then show ?thesis using Cons assms(1,2) gate by (simp add: file_unverified)
    qed
  qed
  have big: "handleFileUpload e w s (f # fs) = (s\<lparr>uploadResult := Some fileTooLarge\<rparr>, [])"
    if "too_large f"
    using that by (rule file_too_large)
  show ?thesis
    using url upload big quiet
    by (simp add: recaptchaRequired_def fileTooLarge_def network_calls_def)
qed

theorem unverified_guest_rejected_locally_witness:
  "handleUrlUpload guest_env (answering u1_response (Some None)) page0 ''https://example.com/menu'' =
     (\<lparr>recaptchaVerified = False, uploadInProgress = False,
       uploadResult = Some \<lparr>success = False,
         message = T ''publicUpload.recaptchaRequired''
                     ''Please complete the reCAPTCHA verification to proceed.''\<rparr>,
       lastDocumentId = None\<rparr>, [])
   \<and> handleFileUpload guest_env (answering u1_response (Some None)) page0 [small_pdf] =
     (\<lparr>recaptchaVerified = False, uploadInProgress = False,
       uploadResult = Some \<lparr>success = False,
         message = T ''publicUpload.recaptchaRequired''
                     ''Please complete the reCAPTCHA verification to proceed.''\<rparr>,
       lastDocumentId = None\<rparr>, [])
   \<and> network_calls
        (snd (handleFileUpload guest_env (answering u1_response (Some None)) page0 [big_pdf])) = []"
proof -
  have a: "user guest_env = None" "\<not> recaptchaVerified page0" "\<not> DEV guest_env"
    "VITE_RECAPTCHA_SITE_KEY guest_env = Some ''site-key''" "''site-key'' \<noteq> []"
    by (simp_all add: guest_env_def page0_def)
  have small: "\<not> too_large small_pdf"
    by (simp add: too_large_def small_pdf_def maxSizeBytes_def)
  from unverified_guest_rejected_locally [OF a,
      of "answering u1_response (Some None)" "''https://example.com/menu''" small_pdf "[]" "[big_pdf]"]
  show ?thesis
    using small by (simp add: page0_def network_calls_def)
qed

subsection \<open>The anonymous path\<close>

text \<open>
  C5 as the spec states it does not hold for a file above 10 MiB: a visitor whose token is
  verified and who submits such a file is rejected at line 45, and the public endpoint is
  not called.
\<close>

theorem verified_guest_big_file_not_sent:
  "user guest_env = None \<and> recaptchaVerified verified_page
   \<and> handleFileUpload guest_env (answering u1_response (Some (Some ''tok-1''))) verified_page
        [big_pdf]
       = (verified_page\<lparr>uploadResult := Some \<lparr>success = False,
            message = T ''publicUpload.fileTooLarge'' ''Maximum upload size is 10 MB''\<rparr>\<rparr>, [])
   \<and> network_calls
        (snd (handleFileUpload guest_env (answering u1_response (Some (Some ''tok-1'')))
               verified_page [big_pdf])) = []"
  by (simp add: handleFileUpload_def too_large_def maxSizeBytes_def big_pdf_def fileTooLarge_def
      guest_env_def verified_page_def handleRecaptchaChange_def truthy_def network_calls_def)

text \<open>
  C5, amended. A visitor (no session) whose token is verified, or who is on a development
  build or a site without a site key: every URL submission, and every file submission whose
  file passes the size check, makes exactly one network call, to the public endpoint, with
  the token of the widget, or with \<open>dev-token\<close> when there is no widget or the widget has
  no token. When that call resolves with a successful response, the page navigates once, to
  \<open>/restaurant-details/\<close> followed by the \<open>uploadId\<close> of that response.
\<close>

theorem guest_submission_uses_public_endpoint:
  assumes "user e = None"
    and "recaptchaVerified s \<or> DEV e \<or> \<not> truthy (VITE_RECAPTCHA_SITE_KEY e)"
  shows "(recaptchaRef w = Some (Some tok) \<and> tok \<noteq> [] \<longrightarrow> recaptchaToken w = tok)
         \<and> ((\<forall>t. recaptchaRef w = Some (Some t) \<longrightarrow> t = []) \<longrightarrow> recaptchaToken w = ''dev-token'')
         \<and> network_calls (snd (handleUrlUpload e w s url)) = [ParsePublicUrl url (recaptchaToken w)]
         \<and> (parsePublicUrl w url (recaptchaToken w) = Resolves r \<and> resp_success r \<and> uploadId r = Some u
              \<longrightarrow> navigations (snd (handleUrlUpload e w s url)) = [''/restaurant-details/'' @ u])
         \<and> (\<not> too_large f \<longrightarrow>
              network_calls (snd (handleFileUpload e w s (f # fs)))
                = [UploadPublicMenu f (recaptchaToken w)]
              \<and> (uploadPublicMenu w f (recaptchaToken w) = Resolves r \<and> resp_success r
                    \<and> uploadId r = Some u
                  \<longrightarrow> navigations (snd (handleFileUpload e w s (f # fs)))
                        = [''/restaurant-details/'' @ u]))"
proof -
  from assms(2) have gate: "recaptchaVerified s \<or> isDev e"
    by (auto simp add: isDev_def)
  have token: "recaptchaRef w = Some (Some tok) \<and> tok \<noteq> [] \<longrightarrow> recaptchaToken w = tok"
    by (simp add: recaptchaToken_def)
  have fallback: "(\<forall>t. recaptchaRef w = Some (Some t) \<longrightarrow> t = []) \<longrightarrow> recaptchaToken w = ''dev-token''"
    by (simp add: recaptchaToken_def split: option.split)
  have url_call: "network_calls (snd (handleUrlUpload e w s url)) = [ParsePublicUrl url (recaptchaToken w)]"
  proof (cases "parsePublicUrl w url (recaptchaToken w)")
    case (Resolves r')
    from url_guest_resolves [OF assms(1) gate this] show ?thesis
      by (simp add: network_calls_def split: option.split)
  next
    case (Rejects err)
    from url_guest_rejects [OF assms(1) gate this] show ?thesis
      by (simp add: network_calls_def)
  qed
  have url_nav: "navigations (snd (handleUrlUpload e w s url)) = [''/restaurant-details/'' @ u]"
    if "parsePublicUrl w url (recaptchaToken w) = Resolves r" "resp_success r" "uploadId r = Some u"
    using url_guest_resolves [OF assms(1) gate that(1)] that(2,3)
    by (simp add: template_str_def split: option.split)
  have file_call: "network_calls (snd (handleFileUpload e w s (f # fs)))
      = [UploadPublicMenu f (recaptchaToken w)]" if small: "\<not> too_large f"
  proof (cases "uploadPublicMenu w f (recaptchaToken w)")
    case (Resolves r')
    from file_guest_resolves [OF small assms(1) gate this] show ?thesis
      by (simp add: network_calls_def split: option.split)
  next
    case (Rejects err)
    from file_guest_rejects [OF small assms(1) gate this] show ?thesis
      by (simp add: network_calls_def)
  qed
  have file_nav: "navigations (snd (handleFileUpload e w s (f # fs))) = [''/restaurant-details/'' @ u]"
    if "\<not> too_large f" "uploadPublicMenu w f (recaptchaToken w) = Resolves r"
      "resp_success r" "uploadId r = Some u"
    using file_guest_resolves [OF that(1) assms(1) gate that(2)] that(3,4)
    by (simp add: template_str_def split: option.split)
  show ?thesis
    using token fallback url_call url_nav file_call file_nav by blast
qed

text \<open>
  The second scenario of the spec: a visitor on a development build, no widget, submits a
  URL; the public endpoint gets \<open>dev-token\<close> and the page navigates to
  \<open>/restaurant-details/u1\<close>. And a visitor with the verified token \<open>tok-1\<close> submits a
  50 KB file on the production site.
\<close>

theorem guest_submission_uses_public_endpoint_witness:
  "network_calls (snd (handleUrlUpload dev_env (answering u1_response None) page0
        ''https://example.com/menu''))
     = [ParsePublicUrl ''https://example.com/menu'' ''dev-token'']
   \<and> navigations (snd (handleUrlUpload dev_env (answering u1_response None) page0
        ''https://example.com/menu''))
     = [''/restaurant-details/u1'']
   \<and> network_calls (snd (handleFileUpload guest_env (answering u1_response (Some (Some ''tok-1'')))
        verified_page [small_pdf]))
     = [UploadPublicMenu small_pdf ''tok-1'']
   \<and> navigations (snd (handleFileUpload guest_env (answering u1_response (Some (Some ''tok-1'')))
        verified_page [small_pdf]))
     = [''/restaurant-details/u1'']"
proof -
  have dev: "user dev_env = None"
    "recaptchaVerified page0 \<or> DEV dev_env \<or> \<not> truthy (VITE_RECAPTCHA_SITE_KEY dev_env)"
    by (simp_all add: dev_env_def)
  have guest: "user guest_env = None"
    "recaptchaVerified verified_page \<or> DEV guest_env \<or> \<not> truthy (VITE_RECAPTCHA_SITE_KEY guest_env)"
    by (simp_all add: guest_env_def verified_page_def handleRecaptchaChange_def truthy_def)
  have small: "\<not> too_large small_pdf"
    by (simp add: too_large_def small_pdf_def maxSizeBytes_def)
  have no_widget: "recaptchaToken (answering u1_response None) = ''dev-token''"
    by (simp add: recaptchaToken_def answering_def)
  have widget: "recaptchaToken (answering u1_response (Some (Some ''tok-1''))) = ''tok-1''"
    by (simp add: recaptchaToken_def answering_def)
  have u1: "resp_success u1_response" "uploadId u1_response = Some ''u1''"
    by (simp_all add: u1_response_def)
  have url_answer: "parsePublicUrl (answering u1_response None) ''https://example.com/menu''
      ''dev-token'' = Resolves u1_response"
    by (simp add: answering_def)
  have file_answer: "uploadPublicMenu (answering u1_response (Some (Some ''tok-1''))) small_pdf
      ''tok-1'' = Resolves u1_response"
    by (simp add: answering_def)
  from guest_submission_uses_public_endpoint [OF dev,
      of "answering u1_response None" "''''" "''https://example.com/menu''" u1_response "''u1''"
        big_pdf "[]"]
    guest_submission_uses_public_endpoint [OF guest,
      of "answering u1_response (Some (Some ''tok-1''))" "''tok-1''" "''''" u1_response "''u1''"
        small_pdf "[]"]
  show ?thesis
    using small no_widget widget u1 url_answer file_answer by simp
qed

subsection \<open>The authenticated path\<close>

text \<open>
  C2 as the spec states it does not hold for every submission of a signed-in user: a file
  above 10 MiB is rejected at line 45, and a file the reader cannot read ends in the
  \<open>catch\<close> block (lines 79 and 117); in both cases the authenticated endpoint is not
  called.
\<close>

theorem member_file_not_always_sent:
  "user member_env = Some (Session ''u42'')
   \<and> network_calls
        (snd (handleFileUpload member_env (answering doc1_response None) page0 [big_pdf])) = []
   \<and> network_calls
        (snd (handleFileUpload member_env (unreadable doc1_response) page0 [small_pdf])) = []"
  by (simp add: handleFileUpload_def too_large_def maxSizeBytes_def big_pdf_def small_pdf_def
      member_env_def network_calls_def file_try_def unreadable_def answering_def)

text \<open>
  C2, amended. For a signed-in user, every URL submission, and every file submission whose
  file passes the size check and is read by the file reader, makes exactly one network
  call, to the authenticated endpoint. When that call resolves with a response that has a
  (non-empty) document identifier, the identifier is recorded as \<open>lastDocumentId\<close> and
  polling is started for it. When the response is successful the page shows the success
  message. No submission of a signed-in user navigates.
\<close>

theorem member_submission_uses_authenticated_endpoint:
  assumes "user e = Some v"
  shows "network_calls (snd (handleUrlUpload e w s url)) = [UploadMenuUrl url []]
         \<and> (api_uploadMenuUrl w url [] = Resolves r \<longrightarrow>
              (documentId r = Some i \<and> i \<noteq> [] \<longrightarrow>
                 lastDocumentId (fst (handleUrlUpload e w s url)) = Some i
                 \<and> polled_document (handleUrlUpload e w s url) = Some i)
              \<and> (resp_success r \<longrightarrow>
                   uploadResult (fst (handleUrlUpload e w s url))
                     = Some \<lparr>success = True, message = T ''publicUpload.uploadSuccess''
                         ''Upload successful! Check your dashboard for analysis results.''\<rparr>))
         \<and> navigations (snd (handleUrlUpload e w s url)) = []
         \<and> (\<not> too_large f \<and> readAsDataURL w f = Some d \<longrightarrow>
              network_calls (snd (handleFileUpload e w s (f # fs)))
                = [UploadMenu f (base64Content d)]
              \<and> (api_uploadMenu w f (base64Content d) = Resolves r \<longrightarrow>
                   (documentId r = Some i \<and> i \<noteq> [] \<longrightarrow>
                      lastDocumentId (fst (handleFileUpload e w s (f # fs))) = Some i
                      \<and> polled_document (handleFileUpload e w s (f # fs)) = Some i)
                   \<and> (resp_success r \<longrightarrow>
                        uploadResult (fst (handleFileUpload e w s (f # fs)))
                          = Some \<lparr>success = True, message = T ''publicUpload.uploadSuccess''
                              ''Upload successful! Check your dashboard for analysis results.''\<rparr>)))
         \<and> navigations (snd (handleFileUpload e w s files)) = []"
proof -
  have url_call: "network_calls (snd (handleUrlUpload e w s url)) = [UploadMenuUrl url []]
      \<and> navigations (snd (handleUrlUpload e w s url)) = []"
  proof (cases "api_uploadMenuUrl w url []")
    case (Resolves r')
    from url_member_resolves [OF assms this] show ?thesis
      by (simp add: network_calls_def)
  next
    case (Rejects err)
    from url_member_rejects [OF assms this] show ?thesis
      by (simp add: network_calls_def)
  qed
  have url_doc: "lastDocumentId (fst (handleUrlUpload e w s url)) = Some i
      \<and> polled_document (handleUrlUpload e w s url) = Some i"
    if "api_uploadMenuUrl w url [] = Resolves r" "documentId r = Some i" "i \<noteq> []"
    using url_member_resolves [OF assms that(1)] that(2,3)
    by (simp add: truthy_def polled_document_def)
  have url_shown: "uploadResult (fst (handleUrlUpload e w s url))
      = Some \<lparr>success = True, message = T ''publicUpload.uploadSuccess''
          ''Upload successful! Check your dashboard for analysis results.''\<rparr>"
    if "api_uploadMenuUrl w url [] = Resolves r" "resp_success r"
    using url_member_resolves [OF assms that(1)] that(2) by simp
  have file_call: "network_calls (snd (handleFileUpload e w s (f # fs)))
      = [UploadMenu f (base64Content d)]"
    if small: "\<not> too_large f" and rd: "readAsDataURL w f = Some d"
  proof (cases "api_uploadMenu w f (base64Content d)")
    case (Resolves r')
    from file_member_resolves [OF small assms rd this] show ?thesis
      by (simp add: network_calls_def)
  next
    case (Rejects err)
    from file_member_rejects [OF small assms rd this] show ?thesis
      by (simp add: network_calls_def)
  qed
  have file_doc: "lastDocumentId (fst (handleFileUpload e w s (f # fs))) = Some i
      \<and> polled_document (handleFileUpload e w s (f # fs)) = Some i"
    if "\<not> too_large f" "readAsDataURL w f = Some d"
      "api_uploadMenu w f (base64Content d) = Resolves r" "documentId r = Some i" "i \<noteq> []"
    using file_member_resolves [OF that(1) assms that(2,3)] that(4,5)
    by (simp add: truthy_def polled_document_def)
  have file_shown: "uploadResult (fst (handleFileUpload e w s (f # fs)))
      = Some \<lparr>success = True, message = T ''publicUpload.uploadSuccess''
          ''Upload successful! Check your dashboard for analysis results.''\<rparr>"
    if "\<not> too_large f" "readAsDataURL w f = Some d"
      "api_uploadMenu w f (base64Content d) = Resolves r" "resp_success r"
    using file_member_resolves [OF that(1) assms that(2,3)] that(4) by simp
  have file_stays: "navigations (snd (handleFileUpload e w s files)) = []"
  proof (cases files)
    case Nil
    then show ?thesis by (simp add: handleFileUpload_def)
  next
    case (Cons g gs)
    show ?thesis
    proof (cases "too_large g")
      case True
      then show ?thesis using Cons by (simp add: file_too_large)
    next
      case small: False
      show ?thesis
      proof (cases "readAsDataURL w g")
        case None
        from file_unreadable [OF small assms this] show ?thesis
          using Cons by simp
      next
        case (Some d')
        show ?thesis
        proof (cases "api_uploadMenu w g (base64Content d')")
          case (Resolves r')
          from file_member_resolves [OF small assms Some this] show ?thesis
            using Cons by simp
        next
          case (Rejects err)
          from file_member_rejects [OF small assms Some this] show ?thesis
            using Cons by simp
        qed
      qed
    qed
  qed
  show ?thesis
    using url_call url_doc url_shown file_call file_doc file_shown file_stays
    by blast
qed

text \<open>
  The first scenario of the spec: a signed-in user submits a 50 KB file, the authenticated
  endpoint is called with the base64 content, the response is
  \<open>{success: true, documentId: "doc1"}\<close>; polling starts for \<open>doc1\<close>, the success message
  is shown and the page does not navigate.
\<close>

theorem member_submission_uses_authenticated_endpoint_witness:
  "network_calls (snd (handleFileUpload member_env (answering doc1_response None) page0 [small_pdf]))
     = [UploadMenu small_pdf (Some ''JVBERi0x'')]
   \<and> lastDocumentId (fst (handleFileUpload member_env (answering doc1_response None) page0
        [small_pdf])) = Some ''doc1''
   \<and> polled_document (handleFileUpload member_env (answering doc1_response None) page0
        [small_pdf]) = Some ''doc1''
   \<and> uploadResult (fst (handleFileUpload member_env (answering doc1_response None) page0
        [small_pdf]))
     = Some \<lparr>success = True, message = T ''publicUpload.uploadSuccess''
         ''Upload successful! Check your dashboard for analysis results.''\<rparr>
   \<and> navigations (snd (handleFileUpload member_env (answering doc1_response None) page0
        [small_pdf])) = []
   \<and> network_calls (snd (handleUrlUpload member_env (answering doc1_response None) page0
        ''https://example.com/menu''))
     = [UploadMenuUrl ''https://example.com/menu'' '''']
   \<and> polled_document (handleUrlUpload member_env (answering doc1_response None) page0
        ''https://example.com/menu'') = Some ''doc1''"
proof -
  have member: "user member_env = Some (Session ''u42'')"
    by (simp add: member_env_def)
  have small: "\<not> too_large small_pdf"
    by (simp add: too_large_def small_pdf_def maxSizeBytes_def)
  have rd: "readAsDataURL (answering doc1_response None) small_pdf
      = Some ''data:application/pdf;base64,JVBERi0x''"
    by (simp add: answering_def)
  have content: "base64Content ''data:application/pdf;base64,JVBERi0x'' = Some ''JVBERi0x''"
    by (simp add: base64Content_def)
  have answer: "api_uploadMenu (answering doc1_response None) small_pdf (Some ''JVBERi0x'')
      = Resolves doc1_response"
    "api_uploadMenuUrl (answering doc1_response None) ''https://example.com/menu'' []
      = Resolves doc1_response"
    by (simp_all add: answering_def)
  have doc1: "documentId doc1_response = Some ''doc1''" "resp_success doc1_response"
    by (simp_all add: doc1_response_def)
  from member_submission_uses_authenticated_endpoint [OF member,
      of "answering doc1_response None" page0 "''https://example.com/menu''" doc1_response
        "''doc1''" small_pdf "''data:application/pdf;base64,JVBERi0x''" "[]" "[small_pdf]"]
  show ?thesis
    using small rd content answer doc1 by simp
qed

subsection \<open>Failures reported by the transport or by the server\<close>

lemma js_includes_iff: "js_includes s pat \<longleftrightarrow> (\<exists>a b. s = a @ pat @ b)"
proof (induction s)
  case Nil
  then show ?case by simp
next
  case (Cons c cs)
  have here: "take (length pat) (c # cs) = pat \<longleftrightarrow> (\<exists>b. c # cs = pat @ b)"
    by (metis append_eq_conv_conj)
  show ?case
  proof
    assume "js_includes (c # cs) pat"
    then consider "take (length pat) (c # cs) = pat" | "js_includes cs pat"
      by auto
    then show "\<exists>a b. c # cs = a @ pat @ b"
    proof cases
      case 1
      with here obtain b where "c # cs = [] @ pat @ b" by auto
      then show ?thesis by blast
    next
      case 2
      with Cons.IH obtain a b where "cs = a @ pat @ b" by auto
      then have "c # cs = (c # a) @ pat @ b" by simp
      then show ?thesis by blast
    qed
  next
    assume "\<exists>a b. c # cs = a @ pat @ b"
    then obtain a b where ab: "c # cs = a @ pat @ b" by auto
    show "js_includes (c # cs) pat"
    proof (cases a)
      case Nil
      with ab have "\<exists>b. c # cs = pat @ b" by auto
      with here have "take (length pat) (c # cs) = pat" by blast
      then show ?thesis by simp
    next
      case (Cons x a')
      with ab have "cs = a' @ pat @ b" by simp
      with Cons.IH show ?thesis by auto
    qed
  qed
qed

text \<open>
  C6. When the network call of a submission rejects with an error \<open>err\<close>, the result is a
  failure whose message is: the rate-limit message if \<open>err.status\<close> is 429, on both tabs;
  on the file tab only, the file-too-large message if \<open>err.status\<close> is 413; otherwise the
  verification-failure message if \<open>err.message\<close> contains \<open>reCAPTCHA\<close>; otherwise the
  generic failure message of the tab (``Upload failed'' for a file, ``URL parsing failed''
  for a URL).
\<close>

theorem transport_error_message:
  "(\<not> too_large f
    \<and> (user e = Some v \<and> readAsDataURL w f = Some d
          \<and> api_uploadMenu w f (base64Content d) = Rejects err
        \<or> user e = None \<and> (recaptchaVerified s \<or> isDev e)
          \<and> uploadPublicMenu w f (recaptchaToken w) = Rejects err)
    \<longrightarrow> uploadResult (fst (handleFileUpload e w s (f # fs)))
        = Some \<lparr>success = False,
            message =
              (if status err = Some 429 then
                 T ''publicUpload.rateLimitError''
                   ''Too many uploads. Please wait before trying again.''
               else if status err = Some 413 then
                 T ''publicUpload.fileTooLarge'' ''Maximum upload size is 10 MB''
               else if \<exists>m a b. err_message err = Some m \<and> m = a @ ''reCAPTCHA'' @ b then
                 T ''publicUpload.recaptchaError''
                   ''reCAPTCHA verification failed. Please try again.''
               else T ''publicUpload.uploadError'' ''Upload failed. Please try again.'')\<rparr>)
   \<and> ((user e = Some v \<and> api_uploadMenuUrl w url [] = Rejects err
        \<or> user e = None \<and> (recaptchaVerified s \<or> isDev e)
          \<and> parsePublicUrl w url (recaptchaToken w) = Rejects err)
    \<longrightarrow> uploadResult (fst (handleUrlUpload e w s url))
        = Some \<lparr>success = False,
            message =
              (if status err = Some 429 then
                 T ''publicUpload.rateLimitError''
                   ''Too many uploads. Please wait before trying again.''
               else if \<exists>m a b. err_message err = Some m \<and> m = a @ ''reCAPTCHA'' @ b then
                 T ''publicUpload.recaptchaError''
                   ''reCAPTCHA verification failed. Please try again.''
               else T ''publicUpload.uploadError'' ''URL parsing failed. Please try again.'')\<rparr>)"
proof -
  have keyword: "(case err_message err of None \<Rightarrow> False | Some m \<Rightarrow> js_includes m ''reCAPTCHA'')
      \<longleftrightarrow> (\<exists>m a b. err_message err = Some m \<and> m = a @ ''reCAPTCHA'' @ b)"
    by (cases "err_message err") (simp_all add: js_includes_iff)
  have file_msg: "file_errorMessage err =
      (if status err = Some 429 then
         T ''publicUpload.rateLimitError'' ''Too many uploads. Please wait before trying again.''
       else if status err = Some 413 then
         T ''publicUpload.fileTooLarge'' ''Maximum upload size is 10 MB''
       else if \<exists>m a b. err_message err = Some m \<and> m = a @ ''reCAPTCHA'' @ b then
         T ''publicUpload.recaptchaError'' ''reCAPTCHA verification failed. Please try again.''
       else T ''publicUpload.uploadError'' ''Upload failed. Please try again.'')"
    unfolding file_errorMessage_def keyword ..
  have url_msg: "url_errorMessage err =
      (if status err = Some 429 then
         T ''publicUpload.rateLimitError'' ''Too many uploads. Please wait before trying again.''
       else if \<exists>m a b. err_message err = Some m \<and> m = a @ ''reCAPTCHA'' @ b then
         T ''publicUpload.recaptchaError'' ''reCAPTCHA verification failed. Please try again.''
       else T ''publicUpload.uploadError'' ''URL parsing failed. Please try again.'')"
    unfolding url_errorMessage_def keyword ..
  have file_member: "uploadResult (fst (handleFileUpload e w s (f # fs)))
      = Some \<lparr>success = False, message = file_errorMessage err\<rparr>"
    if "\<not> too_large f" "user e = Some v" "readAsDataURL w f = Some d"
      "api_uploadMenu w f (base64Content d) = Rejects err"
    using file_member_rejects [OF that] by simp
  have file_guest: "uploadResult (fst (handleFileUpload e w s (f # fs)))
      = Some \<lparr>success = False, message = file_errorMessage err\<rparr>"
    if "\<not> too_large f" "user e = None" "recaptchaVerified s \<or> isDev e"
      "uploadPublicMenu w f (recaptchaToken w) = Rejects err"
    using file_guest_rejects [OF that] by simp
  have url_member: "uploadResult (fst (handleUrlUpload e w s url))
      = Some \<lparr>success = False, message = url_errorMessage err\<rparr>"
    if "user e = Some v" "api_uploadMenuUrl w url [] = Rejects err"
    using url_member_rejects [OF that] by simp
  have url_guest: "uploadResult (fst (handleUrlUpload e w s url))
      = Some \<lparr>success = False, message = url_errorMessage err\<rparr>"
    if "user e = None" "recaptchaVerified s \<or> isDev e"
      "parsePublicUrl w url (recaptchaToken w) = Rejects err"
    using url_guest_rejects [OF that] by simp
  show ?thesis
    unfolding file_msg [symmetric] url_msg [symmetric]
    using file_member file_guest url_member url_guest by blast
qed

text \<open>
  A visitor with a verified token whose call is answered with status 429, on either tab;
  and a signed-in user whose file upload is answered with status 413.
\<close>

theorem transport_error_message_witness:
  "uploadResult (fst (handleFileUpload guest_env
       (rejecting too_many_requests (Some (Some ''tok-1''))) verified_page [small_pdf]))
     = Some \<lparr>success = False,
         message = T ''publicUpload.rateLimitError''
                     ''Too many uploads. Please wait before trying again.''\<rparr>
   \<and> uploadResult (fst (handleUrlUpload guest_env
       (rejecting too_many_requests (Some (Some ''tok-1''))) verified_page
       ''https://example.com/menu''))
     = Some \<lparr>success = False,
         message = T ''publicUpload.rateLimitError''
                     ''Too many uploads. Please wait before trying again.''\<rparr>"
proof -
  have small: "\<not> too_large small_pdf"
    by (simp add: too_large_def small_pdf_def maxSizeBytes_def)
  have guest: "user guest_env = None" "recaptchaVerified verified_page \<or> isDev guest_env"
    by (simp_all add: guest_env_def verified_page_def handleRecaptchaChange_def truthy_def)
  have token: "recaptchaToken (rejecting too_many_requests (Some (Some ''tok-1''))) = ''tok-1''"
    by (simp add: recaptchaToken_def rejecting_def)
  have thrown:
    "uploadPublicMenu (rejecting too_many_requests (Some (Some ''tok-1''))) small_pdf ''tok-1''
       = Rejects too_many_requests"
    "parsePublicUrl (rejecting too_many_requests (Some (Some ''tok-1'')))
       ''https://example.com/menu'' ''tok-1'' = Rejects too_many_requests"
    by (simp_all add: rejecting_def)
  have st: "status too_many_requests = Some 429"
    by (simp add: too_many_requests_def)
  from transport_error_message [of small_pdf guest_env "Session ''u42''"
      "rejecting too_many_requests (Some (Some ''tok-1''))" "''''" too_many_requests
      verified_page "[]" "''https://example.com/menu''"]
  show ?thesis
    using small guest token thrown st by simp
qed

text \<open>
  C7. When the network call of a submission resolves with a response whose \<open>success\<close> is
  false, the result is a failure whose message is the \<open>message\<close> of the response when the
  response has a (non-empty) one, and otherwise the generic failure message of the tab.
\<close>

theorem server_failure_message:
  "(\<not> too_large f \<and> \<not> resp_success r
    \<and> (user e = Some v \<and> readAsDataURL w f = Some d
          \<and> api_uploadMenu w f (base64Content d) = Resolves r
        \<or> user e = None \<and> (recaptchaVerified s \<or> isDev e)
          \<and> uploadPublicMenu w f (recaptchaToken w) = Resolves r)
    \<longrightarrow> uploadResult (fst (handleFileUpload e w s (f # fs)))
        = Some \<lparr>success = False,
            message =
              (case resp_message r of
                 Some m \<Rightarrow>
                   if m = [] then T ''publicUpload.uploadError'' ''Upload failed. Please try again.''
                   else Literal m
               | None \<Rightarrow> T ''publicUpload.uploadError'' ''Upload failed. Please try again.'')\<rparr>)
   \<and> (\<not> resp_success r
    \<and> (user e = Some v \<and> api_uploadMenuUrl w url [] = Resolves r
        \<or> user e = None \<and> (recaptchaVerified s \<or> isDev e)
          \<and> parsePublicUrl w url (recaptchaToken w) = Resolves r)
    \<longrightarrow> uploadResult (fst (handleUrlUpload e w s url))
        = Some \<lparr>success = False,
            message =
              (case resp_message r of
                 Some m \<Rightarrow>
                   if m = [] then
                     T ''publicUpload.uploadError'' ''URL parsing failed. Please try again.''
                   else Literal m
               | None \<Rightarrow>
                   T ''publicUpload.uploadError'' ''URL parsing failed. Please try again.'')\<rparr>)"
proof -
  have msg: "failureMessage dflt r =
      (case resp_message r of
         Some m \<Rightarrow> if m = [] then T ''publicUpload.uploadError'' dflt else Literal m
       | None \<Rightarrow> T ''publicUpload.uploadError'' dflt)" for dflt
    by (simp add: failureMessage_def split: option.split)
  have file_member: "uploadResult (fst (handleFileUpload e w s (f # fs)))
      = Some \<lparr>success = False, message = failureMessage ''Upload failed. Please try again.'' r\<rparr>"
    if "\<not> too_large f" "user e = Some v" "readAsDataURL w f = Some d"
      "api_uploadMenu w f (base64Content d) = Resolves r" "\<not> resp_success r"
    using file_member_resolves [OF that(1-4)] that(5) by simp
  have file_guest: "uploadResult (fst (handleFileUpload e w s (f # fs)))
      = Some \<lparr>success = False, message = failureMessage ''Upload failed. Please try again.'' r\<rparr>"
    if "\<not> too_large f" "user e = None" "recaptchaVerified s \<or> isDev e"
      "uploadPublicMenu w f (recaptchaToken w) = Resolves r" "\<not> resp_success r"
    using file_guest_resolves [OF that(1-4)] that(5) by simp
  have url_member: "uploadResult (fst (handleUrlUpload e w s url))
      = Some \<lparr>success = False,
          message = failureMessage ''URL parsing failed. Please try again.'' r\<rparr>"
    if "user e = Some v" "api_uploadMenuUrl w url [] = Resolves r" "\<not> resp_success r"
    using url_member_resolves [OF that(1,2)] that(3) by simp
  have url_guest: "uploadResult (fst (handleUrlUpload e w s url))
      = Some \<lparr>success = False,
          message = failureMessage ''URL parsing failed. Please try again.'' r\<rparr>"
    if "user e = None" "recaptchaVerified s \<or> isDev e"
      "parsePublicUrl w url (recaptchaToken w) = Resolves r" "\<not> resp_success r"
    using url_guest_resolves [OF that(1-3)] that(4) by simp
  show ?thesis
    unfolding msg [symmetric]
    using file_member file_guest url_member url_guest by blast
qed

text \<open>
  A signed-in user whose file the server refuses with a message of its own, and a visitor
  on a development build whose URL the server refuses without a message.
\<close>

theorem server_failure_message_witness:
  "uploadResult (fst (handleFileUpload member_env (answering refusal None) page0 [small_pdf]))
     = Some \<lparr>success = False, message = Literal ''Only PDF menus are accepted''\<rparr>
   \<and> uploadResult (fst (handleUrlUpload dev_env (answering bare_refusal None) page0
       ''https://example.com/menu''))
     = Some \<lparr>success = False,
         message = T ''publicUpload.uploadError'' ''URL parsing failed. Please try again.''\<rparr>"
proof -
  have small: "\<not> too_large small_pdf"
    by (simp add: too_large_def small_pdf_def maxSizeBytes_def)
  have member: "user member_env = Some (Session ''u42'')"
    by (simp add: member_env_def)
  have dev: "user dev_env = None" "recaptchaVerified page0 \<or> isDev dev_env"
    by (simp_all add: dev_env_def isDev_def)
  have rd: "readAsDataURL (answering refusal None) small_pdf
      = Some ''data:application/pdf;base64,JVBERi0x''"
    by (simp add: answering_def)
  have answers:
    "api_uploadMenu (answering refusal None) small_pdf
       (base64Content ''data:application/pdf;base64,JVBERi0x'') = Resolves refusal"
    "parsePublicUrl (answering bare_refusal None) ''https://example.com/menu''
       (recaptchaToken (answering bare_refusal None)) = Resolves bare_refusal"
    by (simp_all add: answering_def)
  have refused: "\<not> resp_success refusal" "resp_message refusal = Some ''Only PDF menus are accepted''"
    "\<not> resp_success bare_refusal" "resp_message bare_refusal = None"
    by (simp_all add: refusal_def bare_refusal_def)
  from server_failure_message [of small_pdf refusal member_env "Session ''u42''"
      "answering refusal None" "''data:application/pdf;base64,JVBERi0x''" page0 "[]"
      "''https://example.com/menu''"]
    server_failure_message [of small_pdf bare_refusal dev_env "Session ''u42''"
      "answering bare_refusal None" "''data:application/pdf;base64,JVBERi0x''" page0 "[]"
      "''https://example.com/menu''"]
  show ?thesis
    using small member dev rd answers refused by simp
qed

subsection \<open>The size check and values that are not numbers\<close>

lemma local_rejection_needs_too_large:
  assumes "\<not> too_large f"
  shows "handleFileUpload e w s (f # fs) \<noteq> (s\<lparr>uploadResult := Some fileTooLarge\<rparr>, [])"
proof
  assume same: "handleFileUpload e w s (f # fs) = (s\<lparr>uploadResult := Some fileTooLarge\<rparr>, [])"
  then have shown: "uploadResult (fst (handleFileUpload e w s (f # fs))) = Some fileTooLarge"
    and quiet: "snd (handleFileUpload e w s (f # fs)) = []"
    by simp_all
  show False
  proof (cases "user e")
    case None
    show False
    proof (cases "recaptchaVerified s \<or> isDev e")
      case True
      show False
      proof (cases "uploadPublicMenu w f (recaptchaToken w)")
        case (Resolves r)
        from file_guest_resolves [OF assms None True this] quiet show False by simp
      next
        case (Rejects err)
        from file_guest_rejects [OF assms None True this] quiet show False by simp
      qed
    next
      case False
      then have "\<not> recaptchaVerified s" "\<not> isDev e" by simp_all
      from file_unverified [OF assms None this] shown show False
        by (simp add: fileTooLarge_def recaptchaRequired_def)
    qed
  next
    case (Some v)
    show False
    proof (cases "readAsDataURL w f")
      case None
      from file_unreadable [OF assms Some this] shown show False
        by (simp add: fileTooLarge_def)
    next
      case (Some d)
      show False
      proof (cases "api_uploadMenu w f (base64Content d)")
        case (Resolves r)
        from file_member_resolves [OF assms \<open>user e = Some v\<close> Some this] quiet show False by simp
      next
        case (Rejects err)
        from file_member_rejects [OF assms \<open>user e = Some v\<close> Some this] quiet show False by simp
      qed
    qed
  qed
qed

text \<open>
  C9. The local rejection of a file submission as too large (the file-too-large result,
  nothing else changed, no collaborator called) happens exactly when \<open>file.size\<close> is a
  number strictly above 10 * 1024 * 1024. When \<open>file.size\<close> is not a number the check is
  skipped and the submission goes on exactly as for a number that is not above the limit;
  for both kinds of file the handler returns, path by path:
  the verification-required rejection for a visitor without a verified token on a
  production site; for any other visitor the call of the public endpoint with the file and
  the token, followed, when the call resolves, by the navigation (on success) or the
  failure message, the reset of the widget and the cleared verified flag, and, when the
  call rejects, by the message of the \<open>catch\<close> block; for a signed-in user the generic
  failure when the file cannot be read, and otherwise the call of the authenticated
  endpoint with the file and its content, followed, when the call resolves, by the
  recording of the document identifier with the start of polling and the success or
  failure message, and, when the call rejects, by the message of the \<open>catch\<close> block. The
  busy flag is false at the end of each of these.
\<close>

theorem size_check_skipped_unless_number:
  "(handleFileUpload e w s (f # fs) =
      (s\<lparr>uploadResult := Some \<lparr>success = False,
            message = T ''publicUpload.fileTooLarge'' ''Maximum upload size is 10 MB''\<rparr>\<rparr>, [])
    \<longleftrightarrow> (\<exists>n. file_size f = Number n \<and> n > 10 * 1024 * 1024))
   \<and> (file_size f = NonNumber \<or> (\<exists>n. file_size f = Number n \<and> n \<le> 10 * 1024 * 1024) \<longrightarrow>
        (user e = None \<and> \<not> recaptchaVerified s \<and> \<not> isDev e \<longrightarrow>
           handleFileUpload e w s (f # fs) =
             (s\<lparr>uploadResult := Some \<lparr>success = False,
                   message = T ''publicUpload.recaptchaRequired''
                               ''Please complete the reCAPTCHA verification to proceed.''\<rparr>\<rparr>,
              []))
        \<and> (user e = None \<and> (recaptchaVerified s \<or> isDev e) \<longrightarrow>
             network_calls (snd (handleFileUpload e w s (f # fs)))
               = [UploadPublicMenu f (recaptchaToken w)])
        \<and> (user e = None \<and> (recaptchaVerified s \<or> isDev e)
              \<and> uploadPublicMenu w f (recaptchaToken w) = Resolves r \<longrightarrow>
             handleFileUpload e w s (f # fs) =
               (s\<lparr>uploadInProgress := False,
                  uploadResult :=
                    (if resp_success r then None
                     else Some \<lparr>success = False,
                            message = failureMessage ''Upload failed. Please try again.'' r\<rparr>),
                  recaptchaVerified := False\<rparr>,
                UploadPublicMenu f (recaptchaToken w)
                  # (if resp_success r
                     then [Navigate (''/restaurant-details/'' @ template_str (uploadId r))]
                     else [])
                  @ (case recaptchaRef w of None \<Rightarrow> [] | Some _ \<Rightarrow> [RecaptchaReset])))
        \<and> (user e = None \<and> (recaptchaVerified s \<or> isDev e)
              \<and> uploadPublicMenu w f (recaptchaToken w) = Rejects err \<longrightarrow>
             handleFileUpload e w s (f # fs) =
               (s\<lparr>uploadInProgress := False,
                  uploadResult := Some \<lparr>success = False, message = file_errorMessage err\<rparr>\<rparr>,
                [UploadPublicMenu f (recaptchaToken w)]))
        \<and> (user e = Some v \<and> readAsDataURL w f = None \<longrightarrow>
             handleFileUpload e w s (f # fs) =
               (s\<lparr>uploadInProgress := False,
                  uploadResult := Some \<lparr>success = False,
                    message = T ''publicUpload.uploadError''
                                ''Upload failed. Please try again.''\<rparr>\<rparr>,
                []))
        \<and> (user e = Some v \<and> readAsDataURL w f = Some d \<longrightarrow>
             network_calls (snd (handleFileUpload e w s (f # fs)))
               = [UploadMenu f (base64Content d)])
        \<and> (user e = Some v \<and> readAsDataURL w f = Some d
              \<and> api_uploadMenu w f (base64Content d) = Resolves r \<longrightarrow>
             handleFileUpload e w s (f # fs) =
               (s\<lparr>uploadInProgress := False,
                  uploadResult :=
                    Some (if resp_success r
                          then \<lparr>success = True, message = T ''publicUpload.uploadSuccess''
                                 ''Upload successful! Check your dashboard for analysis results.''\<rparr>
                          else \<lparr>success = False,
                                message = failureMessage ''Upload failed. Please try again.'' r\<rparr>),
                  lastDocumentId :=
                    (if truthy (documentId r) then documentId r else lastDocumentId s)\<rparr>,
                UploadMenu f (base64Content d)
                  # (if truthy (documentId r) then [StartPolling] else [])))
        \<and> (user e = Some v \<and> readAsDataURL w f = Some d
              \<and> api_uploadMenu w f (base64Content d) = Rejects err \<longrightarrow>
             handleFileUpload e w s (f # fs) =
               (s\<lparr>uploadInProgress := False,
                  uploadResult := Some \<lparr>success = False, message = file_errorMessage err\<rparr>\<rparr>,
                [UploadMenu f (base64Content d)])))"
proof -
  have fires: "handleFileUpload e w s (f # fs) = (s\<lparr>uploadResult := Some fileTooLarge\<rparr>, [])
      \<longleftrightarrow> (\<exists>n. file_size f = Number n \<and> n > 10 * 1024 * 1024)"
    using file_too_large [of f e w s fs] local_rejection_needs_too_large [of f e w s fs]
    unfolding too_large_iff [symmetric] by blast
  have passes: "\<not> too_large f"
    if "file_size f = NonNumber \<or> (\<exists>n. file_size f = Number n \<and> n \<le> 10 * 1024 * 1024)"
    using that by (auto simp add: too_large_def maxSizeBytes_def)
  have gate: "handleFileUpload e w s (f # fs) = (s\<lparr>uploadResult := Some recaptchaRequired\<rparr>, [])"
    if "\<not> too_large f" "user e = None" "\<not> recaptchaVerified s" "\<not> isDev e"
    using file_unverified [OF that] .
  have guest_calls: "network_calls (snd (handleFileUpload e w s (f # fs)))
      = [UploadPublicMenu f (recaptchaToken w)]"
    if ok: "\<not> too_large f" and u: "user e = None" and g: "recaptchaVerified s \<or> isDev e"
  proof (cases "uploadPublicMenu w f (recaptchaToken w)")
    case (Resolves r')
    from file_guest_resolves [OF ok u g this] show ?thesis
      by (simp add: network_calls_def split: option.split)
  next
    case (Rejects err')
    from file_guest_rejects [OF ok u g this] show ?thesis
      by (simp add: network_calls_def)
  qed
  have member_calls: "network_calls (snd (handleFileUpload e w s (f # fs)))
      = [UploadMenu f (base64Content d)]"
    if ok: "\<not> too_large f" and u: "user e = Some v" and rd: "readAsDataURL w f = Some d"
  proof (cases "api_uploadMenu w f (base64Content d)")
    case (Resolves r')
    from file_member_resolves [OF ok u rd this] show ?thesis
      by (simp add: network_calls_def)
  next
    case (Rejects err')
    from file_member_rejects [OF ok u rd this] show ?thesis
      by (simp add: network_calls_def)
  qed
  note paths = gate guest_calls member_calls
    file_guest_resolves [of f e s w r fs] file_guest_rejects [of f e s w err fs]
    file_unreadable [of f e v w s fs]
    file_member_resolves [of f e v w d r s fs] file_member_rejects [of f e v w d err s fs]
  show ?thesis
    unfolding fileTooLarge_def [symmetric] recaptchaRequired_def [symmetric]
  proof (intro conjI impI)
    show "handleFileUpload e w s (f # fs) = (s\<lparr>uploadResult := Some fileTooLarge\<rparr>, [])
        \<longleftrightarrow> (\<exists>n. file_size f = Number n \<and> n > 10 * 1024 * 1024)"
      by (rule fires)
  qed (use passes paths in \<open>simp_all\<close>)
qed

text \<open>
  An object whose \<open>size\<close> is not a number, submitted by a visitor with the verified token
  \<open>tok-1\<close>, is sent to the public endpoint, the page navigates to the result, the widget
  is reset and the verified flag cleared; submitted by a signed-in user it is sent to the
  authenticated endpoint and polling starts for \<open>doc1\<close>. The visitor's 11 MiB file is
  rejected locally, the 50 KB file is not.
\<close>

theorem size_check_skipped_unless_number_witness:
  "file_size odd_file = NonNumber
   \<and> network_calls (snd (handleFileUpload guest_env
        (answering u1_response (Some (Some ''tok-1''))) verified_page [odd_file]))
     = [UploadPublicMenu odd_file ''tok-1'']
   \<and> handleFileUpload guest_env (answering u1_response (Some (Some ''tok-1''))) verified_page
        [odd_file]
     = (\<lparr>recaptchaVerified = False, uploadInProgress = False, uploadResult = None,
         lastDocumentId = None\<rparr>,
        [UploadPublicMenu odd_file ''tok-1'', Navigate ''/restaurant-details/u1'',
         RecaptchaReset])
   \<and> handleFileUpload member_env (answering doc1_response None) page0 [odd_file]
     = (\<lparr>recaptchaVerified = False, uploadInProgress = False,
         uploadResult = Some \<lparr>success = True, message = T ''publicUpload.uploadSuccess''
           ''Upload successful! Check your dashboard for analysis results.''\<rparr>,
         lastDocumentId = Some ''doc1''\<rparr>,
        [UploadMenu odd_file (Some ''JVBERi0x''), StartPolling])
   \<and> handleFileUpload guest_env (answering u1_response (Some (Some ''tok-1''))) verified_page
        [big_pdf]
     = (verified_page\<lparr>uploadResult := Some \<lparr>success = False,
          message = T ''publicUpload.fileTooLarge'' ''Maximum upload size is 10 MB''\<rparr>\<rparr>, [])
   \<and> handleFileUpload guest_env (answering u1_response (Some (Some ''tok-1''))) verified_page
        [small_pdf]
     \<noteq> (verified_page\<lparr>uploadResult := Some \<lparr>success = False,
          message = T ''publicUpload.fileTooLarge'' ''Maximum upload size is 10 MB''\<rparr>\<rparr>, [])"
proof -
  have odd: "file_size odd_file = NonNumber"
    by (simp add: odd_file_def)
  have sizes: "file_size big_pdf = Number 11534336" "file_size small_pdf = Number 51200"
    by (simp_all add: big_pdf_def small_pdf_def)
  have guest: "user guest_env = None" "recaptchaVerified verified_page \<or> isDev guest_env"
    by (simp_all add: guest_env_def verified_page_def handleRecaptchaChange_def truthy_def)
  have member: "user member_env = Some (Session ''u42'')"
    by (simp add: member_env_def)
  have token: "recaptchaToken (answering u1_response (Some (Some ''tok-1''))) = ''tok-1''"
    by (simp add: recaptchaToken_def answering_def)
  have answers:
    "uploadPublicMenu (answering u1_response (Some (Some ''tok-1''))) odd_file ''tok-1''
       = Resolves u1_response"
    "recaptchaRef (answering u1_response (Some (Some ''tok-1''))) = Some (Some ''tok-1'')"
    "readAsDataURL (answering doc1_response None) odd_file
       = Some ''data:application/pdf;base64,JVBERi0x''"
    "api_uploadMenu (answering doc1_response None) odd_file (Some ''JVBERi0x'')
       = Resolves doc1_response"
    by (simp_all add: answering_def)
  have content: "base64Content ''data:application/pdf;base64,JVBERi0x'' = Some ''JVBERi0x''"
    by (simp add: base64Content_def)
  have fields: "resp_success u1_response" "uploadId u1_response = Some ''u1''"
    "resp_success doc1_response" "documentId doc1_response = Some ''doc1''"
    by (simp_all add: u1_response_def doc1_response_def)
  have pages: "verified_page = \<lparr>recaptchaVerified = True, uploadInProgress = False,
      uploadResult = None, lastDocumentId = None\<rparr>"
    by (simp add: verified_page_def page0_def handleRecaptchaChange_def truthy_def)
  from size_check_skipped_unless_number [where e = guest_env
        and w = "answering u1_response (Some (Some ''tok-1''))" and s = verified_page
        and f = odd_file and fs = "[]" and r = u1_response]
    size_check_skipped_unless_number [where e = member_env
        and w = "answering doc1_response None" and s = page0 and f = odd_file and fs = "[]"
        and v = "Session ''u42''" and d = "''data:application/pdf;base64,JVBERi0x''"
        and r = doc1_response]
    size_check_skipped_unless_number [where e = guest_env
        and w = "answering u1_response (Some (Some ''tok-1''))" and s = verified_page
        and f = big_pdf and fs = "[]"]
    size_check_skipped_unless_number [where e = guest_env
        and w = "answering u1_response (Some (Some ''tok-1''))" and s = verified_page
        and f = small_pdf and fs = "[]"]
  show ?thesis
    using odd sizes guest member token answers content fields
    by (simp add: template_str_def truthy_def page0_def pages network_calls_def)
qed

subsection \<open>What is rendered for verification\<close>

text \<open>
  C8. The reCAPTCHA widget is rendered exactly when there is no session, a (non-empty) site
  key is configured and the build is not a development build. The development-mode notice
  is rendered exactly when there is no session and the build is a development build or no
  site key is configured. For a visitor exactly one of the two is rendered; for a signed-in
  user neither is.
\<close>

theorem verification_affordances:
  "(renders_recaptcha e \<longleftrightarrow>
      user e = None \<and> (\<exists>k. VITE_RECAPTCHA_SITE_KEY e = Some k \<and> k \<noteq> []) \<and> \<not> DEV e)
   \<and> (renders_dev_notice e \<longleftrightarrow>
      user e = None \<and> (DEV e \<or> \<not> (\<exists>k. VITE_RECAPTCHA_SITE_KEY e = Some k \<and> k \<noteq> [])))
   \<and> (user e = None \<longrightarrow> renders_recaptcha e \<noteq> renders_dev_notice e)
   \<and> (user e \<noteq> None \<longrightarrow> \<not> renders_recaptcha e \<and> \<not> renders_dev_notice e)"
proof -
  have key: "truthy (VITE_RECAPTCHA_SITE_KEY e)
      \<longleftrightarrow> (\<exists>k. VITE_RECAPTCHA_SITE_KEY e = Some k \<and> k \<noteq> [])"
    by (cases "VITE_RECAPTCHA_SITE_KEY e") (simp_all add: truthy_def)
  show ?thesis
    unfolding key [symmetric]
    by (auto simp add: renders_recaptcha_def renders_dev_notice_def)
qed

theorem verification_affordances_witness:
  "user guest_env = None \<and> renders_recaptcha guest_env \<and> \<not> renders_dev_notice guest_env
   \<and> user dev_env = None \<and> \<not> renders_recaptcha dev_env \<and> renders_dev_notice dev_env
   \<and> user member_env \<noteq> None \<and> \<not> renders_recaptcha member_env \<and> \<not> renders_dev_notice member_env"
proof -
  have users: "user guest_env = None" "user dev_env = None" "user member_env \<noteq> None"
    by (simp_all add: guest_env_def dev_env_def member_env_def)
  have keys: "VITE_RECAPTCHA_SITE_KEY guest_env = Some ''site-key''" "\<not> DEV guest_env"
    "DEV dev_env"
    by (simp_all add: guest_env_def dev_env_def)
  from verification_affordances [of guest_env] verification_affordances [of dev_env]
    verification_affordances [of member_env]
  show ?thesis
    using users keys by simp
qed

subsection \<open>The reset of the verification\<close>

text \<open>
  When the network call of a visitor's submission resolves, with a successful response or
  a failure, the verified flag is false afterwards and the widget, when one is mounted,
  has been reset (lines 113 to 116 and 186 to 189).
\<close>

lemma answered_guest_submission_resets_verification:
  assumes "user e = None" and "recaptchaVerified s \<or> isDev e"
  shows "(\<not> too_large f \<and> uploadPublicMenu w f (recaptchaToken w) = Resolves r \<longrightarrow>
            \<not> recaptchaVerified (fst (handleFileUpload e w s (f # fs)))
            \<and> (RecaptchaReset \<in> set (snd (handleFileUpload e w s (f # fs)))
                 \<longleftrightarrow> recaptchaRef w \<noteq> None))
         \<and> (parsePublicUrl w url (recaptchaToken w) = Resolves r \<longrightarrow>
            \<not> recaptchaVerified (fst (handleUrlUpload e w s url))
            \<and> (RecaptchaReset \<in> set (snd (handleUrlUpload e w s url))
                 \<longleftrightarrow> recaptchaRef w \<noteq> None))"
proof -
  have upload: "\<not> recaptchaVerified (fst (handleFileUpload e w s (f # fs)))
      \<and> (RecaptchaReset \<in> set (snd (handleFileUpload e w s (f # fs))) \<longleftrightarrow> recaptchaRef w \<noteq> None)"
    if "\<not> too_large f" "uploadPublicMenu w f (recaptchaToken w) = Resolves r"
    using file_guest_resolves [OF that(1) assms that(2), of fs]
    by (cases "recaptchaRef w") simp_all
  have parse: "\<not> recaptchaVerified (fst (handleUrlUpload e w s url))
      \<and> (RecaptchaReset \<in> set (snd (handleUrlUpload e w s url)) \<longleftrightarrow> recaptchaRef w \<noteq> None)"
    if "parsePublicUrl w url (recaptchaToken w) = Resolves r"
    using url_guest_resolves [OF assms that]
    by (cases "recaptchaRef w") simp_all
  show ?thesis
    using upload parse by blast
qed

lemma answered_guest_submission_resets_verification_witness:
  "\<not> recaptchaVerified (fst (handleUrlUpload guest_env
        (answering refusal (Some (Some ''tok-1''))) verified_page ''https://example.com/menu''))
   \<and> RecaptchaReset \<in> set (snd (handleUrlUpload guest_env
        (answering refusal (Some (Some ''tok-1''))) verified_page ''https://example.com/menu''))"
proof -
  have guest: "user guest_env = None" "recaptchaVerified verified_page \<or> isDev guest_env"
    by (simp_all add: guest_env_def verified_page_def handleRecaptchaChange_def truthy_def)
  have answer: "parsePublicUrl (answering refusal (Some (Some ''tok-1'')))
      ''https://example.com/menu'' (recaptchaToken (answering refusal (Some (Some ''tok-1''))))
      = Resolves refusal"
    "recaptchaRef (answering refusal (Some (Some ''tok-1''))) \<noteq> None"
    by (simp_all add: answering_def)
  from answered_guest_submission_resets_verification [OF guest,
      of small_pdf "answering refusal (Some (Some ''tok-1''))" refusal "[]"
        "''https://example.com/menu''"]
  show ?thesis
    using answer by simp
qed

text \<open>
  C1. The claim is that after every submission attempt of a visitor (no session), whether
  it ends in success, in a failure response or in a transport error, the widget has been
  reset and the verified flag is false. After a transport error the code does not do this:
  the reset stands at the end of the \<open>try\<close> block (lines 112 to 116 and 185 to 189), not
  in \<open>finally\<close>, so a rejected call skips it. A visitor with the verified token \<open>tok-1\<close>
  whose call is answered with status 429 still has the verified flag set afterwards, and
  the only call made is the network call: the widget has not been reset. This is so on both
  tabs.
\<close>

theorem transport_error_keeps_verification:
  "handleUrlUpload guest_env (rejecting too_many_requests (Some (Some ''tok-1''))) verified_page
     ''https://example.com/menu''
     = (\<lparr>recaptchaVerified = True, uploadInProgress = False,
         uploadResult = Some \<lparr>success = False,
           message = T ''publicUpload.rateLimitError''
                       ''Too many uploads. Please wait before trying again.''\<rparr>,
         lastDocumentId = None\<rparr>,
        [ParsePublicUrl ''https://example.com/menu'' ''tok-1''])
   \<and> handleFileUpload guest_env (rejecting too_many_requests (Some (Some ''tok-1''))) verified_page
     [small_pdf]
     = (\<lparr>recaptchaVerified = True, uploadInProgress = False,
         uploadResult = Some \<lparr>success = False,
           message = T ''publicUpload.rateLimitError''
                       ''Too many uploads. Please wait before trying again.''\<rparr>,
         lastDocumentId = None\<rparr>,
        [UploadPublicMenu small_pdf ''tok-1''])"
  by (simp add: handleUrlUpload_def handleFileUpload_def url_try_def file_try_def
      guest_env_def verified_page_def page0_def handleRecaptchaChange_def truthy_def
      rejecting_def too_many_requests_def recaptchaToken_def url_errorMessage_def
      file_errorMessage_def too_large_def small_pdf_def maxSizeBytes_def isDev_def)

subsection \<open>The empty file list\<close>

text \<open>
  C10. Calling the file handler with an empty list of files returns at once: the state
  (result, busy flag, verified flag, last document identifier) is the state it was called
  in, and no collaborator is called, so no network call is made.
\<close>

theorem empty_file_list_is_noop:
  "handleFileUpload e w s [] = (s, []) \<and> network_calls (snd (handleFileUpload e w s [])) = []"
  by (simp add: handleFileUpload_def network_calls_def)

end
